theory Spec2Isabelle
  imports Complex_Main
begin

section \<open>Python values, types and exceptions\<close>

text \<open>
  The source is one Python module, \<^verbatim>\<open>cograph.py\<close>. Its methods mutate objects and raise
  exceptions; here every method takes the object (or the whole world of objects) and
  returns a pair: the outcome (\<open>Inl\<close> an exception, \<open>Inr\<close> the returned value) and the
  object as the call leaves it. An exception therefore keeps whatever mutation was done
  before it was raised.
\<close>

datatype pytype = T_NoneType | T_bool | T_int | T_float | T_str

datatype pyval = PyNone | PyBool bool | PyInt int | PyFloat real | PyStr string

fun type_name :: "pyval \<Rightarrow> string" where
  "type_name PyNone = ''NoneType''"
| "type_name (PyBool b) = ''bool''"
| "type_name (PyInt i) = ''int''"
| "type_name (PyFloat x) = ''float''"
| "type_name (PyStr s) = ''str''"

text \<open>\<^verbatim>\<open>isinstance(value, t)\<close>; \<^verbatim>\<open>bool\<close> is a subclass of \<^verbatim>\<open>int\<close>.\<close>

fun isinstance :: "pyval \<Rightarrow> pytype \<Rightarrow> bool" where
  "isinstance PyNone t = (t = T_NoneType)"
| "isinstance (PyBool b) t = (t = T_bool \<or> t = T_int)"
| "isinstance (PyInt i) t = (t = T_int)"
| "isinstance (PyFloat x) t = (t = T_float)"
| "isinstance (PyStr s) t = (t = T_str)"

text \<open>
  The exceptions the module can raise. \<open>KeyError\<close> carries its argument: the missing key
  when a dictionary lookup raises it, the message when \<^verbatim>\<open>define\<close> raises it. A
  \<open>TypeError\<close> is either raised by the module with a message, or by the interpreter:
  hashing an object of an unhashable class (named), or testing membership in an object
  that is no container (its class named). \<open>AttributeError\<close> names the class and the
  attribute it lacks.
\<close>

datatype type_error = Message string | UnhashableType string | NotIterable string

datatype error =
    KeyError string
  | TypeError type_error
  | AttributeError string string
  | NotImplementedError

type_synonym ('a, 's) outcome = "(error + 'a) \<times> 's"

text \<open>Statement sequencing: an exception skips the rest and keeps the state reached.\<close>

definition and_then ::
  "('s \<Rightarrow> ('a, 's) outcome) \<Rightarrow> ('s \<Rightarrow> ('b, 's) outcome) \<Rightarrow> 's \<Rightarrow> ('b, 's) outcome" where
  "and_then f g s = (case f s of (Inl e, s') \<Rightarrow> (Inl e, s') | (Inr x, s') \<Rightarrow> g s')"

section \<open>Value types\<close>

text \<open>
  The fields are Python floats (or ints: \<^verbatim>\<open>PhysicalProperties(1000, 0., 0., 0.)\<close>). The
  module never computes with them, it only stores and returns them, so they are modelled
  by the numbers they denote.
\<close>

record PhysicalProperties =
  resistance_ohms :: real
  capacitance_farads :: real
  inductance_teslas :: real
  temperature_delta_celsius :: real

record ApparentEMFState =
  potential_volts :: real
  current_probe_amps :: real

text \<open>
  A \<^verbatim>\<open>uuid.UUID\<close> object, represented by its canonical text: the components use
  \<^verbatim>\<open>str(line_uuid)\<close> as dictionary key, and two UUIDs are equal exactly when their texts
  are.
\<close>

datatype UUID = UUID (str: string)

section \<open>LineEdge\<close>

record LineEdge =
  uuid :: UUID
  conductor :: PhysicalProperties
  u_component_id :: string
  u_component_pin :: string
  v_component_id :: string
  v_component_pin :: string

text \<open>
  \<^verbatim>\<open>LineEdge.__init__(*args)\<close> with the five arguments \<^verbatim>\<open>link\<close> passes. The last statement
  is \<^verbatim>\<open>self.uuid = uuid4()\<close>: the value drawn by \<^verbatim>\<open>uuid4()\<close> is an input from the
  environment and is the first parameter here.
\<close>

definition LineEdge_init ::
  "UUID \<Rightarrow> PhysicalProperties \<Rightarrow> string \<Rightarrow> string \<Rightarrow> string \<Rightarrow> string \<Rightarrow> LineEdge" where
  "LineEdge_init uuid4 a0 a1 a2 a3 a4 =
     \<lparr>uuid = uuid4, conductor = a0, u_component_id = a1, u_component_pin = a2,
      v_component_id = a3, v_component_pin = a4\<rparr>"

section \<open>Components\<close>

text \<open>
  \<^verbatim>\<open>_state['pins']\<close>: pin name to the two-element list \<^verbatim>\<open>[basis, dict()]\<close>, the second
  element mapping \<^verbatim>\<open>str(uuid)\<close> of a connected line to the line's properties.
\<close>

type_synonym pin_table = "string \<rightharpoonup> (PhysicalProperties \<times> (string \<rightharpoonup> PhysicalProperties))"

record Resistor =
  r_basis :: PhysicalProperties
  r_temp_c :: real
  r_pins :: pin_table
  r_ticks :: int

text \<open>
  \<^verbatim>\<open>VoltageDC\<close>: \<^verbatim>\<open>_attrib_type_map\<close> is the class attribute (\<^verbatim>\<open>None\<close>, and \<^verbatim>\<open>__init__\<close> never
  assigns it), \<^verbatim>\<open>_attributes\<close> is what \<^verbatim>\<open>__init__\<close> assigns, \<open>v_state_attributes\<close> is
  \<^verbatim>\<open>_state['attributes']\<close>. The dictionary \<^verbatim>\<open>_state\<close> has the keys \<^verbatim>\<open>temp_c\<close>, \<^verbatim>\<open>pins\<close>,
  \<^verbatim>\<open>ticks\<close> and \<^verbatim>\<open>attributes\<close> and no other.
\<close>

record VoltageDC =
  v_basis :: PhysicalProperties
  v_attributes :: "string \<rightharpoonup> pytype"
  v_attrib_type_map :: "(string \<rightharpoonup> pytype) option"
  v_temp_c :: real
  v_pins :: pin_table
  v_ticks :: int
  v_state_attributes :: "string \<rightharpoonup> pyval"

datatype ComponentNode = IsResistor Resistor | IsVoltageDC VoltageDC

subsection \<open>Resistor\<close>

definition Resistor_init :: Resistor where
  "Resistor_init =
     (let basis = \<lparr>resistance_ohms = 1000, capacitance_farads = 0, inductance_teslas = 0,
                   temperature_delta_celsius = 0\<rparr>
      in \<lparr>r_basis = basis, r_temp_c = 25,
          r_pins = [''p1'' \<mapsto> (basis, Map.empty), ''p2'' \<mapsto> (basis, Map.empty)],
          r_ticks = 0\<rparr>)"

text \<open>
  The elements of the set display \<^verbatim>\<open>{"p1", self._basis, "p2", self._basis}\<close>. Building a
  set hashes each element in order. \<^verbatim>\<open>PhysicalProperties\<close> is a \<^verbatim>\<open>@dataclass\<close> with the
  default \<^verbatim>\<open>eq=True, frozen=False\<close>, whose \<^verbatim>\<open>__hash__\<close> is \<^verbatim>\<open>None\<close>: hashing it raises
  \<^verbatim>\<open>TypeError\<close>.
\<close>

datatype pyobj = ObjStr string | ObjProps PhysicalProperties

fun hashable :: "pyobj \<Rightarrow> bool" where
  "hashable (ObjStr s) = True"
| "hashable (ObjProps p) = False"

fun set_display :: "pyobj list \<Rightarrow> pyobj set \<Rightarrow> error + pyobj set" where
  "set_display [] acc = Inr acc"
| "set_display (x # xs) acc =
     (if hashable x then set_display xs (insert x acc)
      else Inl (TypeError (UnhashableType ''PhysicalProperties'')))"

text \<open>\<^verbatim>\<open>Resistor.input_basis_table\<close> is a plain method (no \<^verbatim>\<open>@property\<close>); this is its call.\<close>

definition Resistor_input_basis_table :: "Resistor \<Rightarrow> error + pyobj set" where
  "Resistor_input_basis_table self =
     set_display [ObjStr ''p1'', ObjProps (r_basis self), ObjStr ''p2'', ObjProps (r_basis self)] {}"

definition Resistor_on_initialisation :: "real \<Rightarrow> Resistor \<Rightarrow> Resistor" where
  "Resistor_on_initialisation ambient_temp_c self = self\<lparr>r_temp_c := ambient_temp_c\<rparr>"

definition Resistor_on_line_connect ::
  "string \<Rightarrow> UUID \<Rightarrow> PhysicalProperties \<Rightarrow> Resistor \<Rightarrow> (unit, Resistor) outcome" where
  "Resistor_on_line_connect component_line_key line_uuid line_properties self =
     (case r_pins self component_line_key of
        None \<Rightarrow> (Inl (KeyError component_line_key), self)
      | Some (basis, lines) \<Rightarrow>
          (Inr (), self\<lparr>r_pins := (r_pins self)(component_line_key \<mapsto>
                          (basis, lines(str line_uuid \<mapsto> line_properties)))\<rparr>))"

definition Resistor_on_line_disconnect ::
  "string \<Rightarrow> UUID \<Rightarrow> Resistor \<Rightarrow> (unit, Resistor) outcome" where
  "Resistor_on_line_disconnect component_line_key line_id self =
     (case r_pins self component_line_key of
        None \<Rightarrow> (Inl (KeyError component_line_key), self)
      | Some (basis, lines) \<Rightarrow>
          (case lines (str line_id) of
             None \<Rightarrow> (Inl (KeyError (str line_id)), self)
           | Some p \<Rightarrow>
               (Inr (), self\<lparr>r_pins := (r_pins self)(component_line_key \<mapsto>
                               (basis, lines(str line_id := None)))\<rparr>)))"

definition Resistor_on_tdelta :: "int \<Rightarrow> Resistor \<Rightarrow> (unit, Resistor) outcome" where
  "Resistor_on_tdelta tick self = (Inl NotImplementedError, self)"

definition Resistor_on_set_attribute :: "string \<Rightarrow> pyval \<Rightarrow> Resistor \<Rightarrow> (pyval, Resistor) outcome" where
  "Resistor_on_set_attribute key val self = (Inr (PyBool False), self)"

definition Resistor_attribute_lookup :: "Resistor \<Rightarrow> (string \<rightharpoonup> pytype) option" where
  "Resistor_attribute_lookup self = Some Map.empty"

subsection \<open>VoltageDC\<close>

definition VoltageDC_init :: VoltageDC where
  "VoltageDC_init =
     (let basis = \<lparr>resistance_ohms = 0, capacitance_farads = 0, inductance_teslas = 0,
                   temperature_delta_celsius = 0\<rparr>;
          attributes = [''voltage_selector_state'' \<mapsto> T_float]
      in \<lparr>v_basis = basis, v_attributes = attributes, v_attrib_type_map = None,
          v_temp_c = 25,
          v_pins = [''pos'' \<mapsto> (basis, Map.empty), ''neg'' \<mapsto> (basis, Map.empty)],
          v_ticks = 0,
          v_state_attributes = (\<lambda>k. if k \<in> dom attributes then Some PyNone else None)\<rparr>)"

definition VoltageDC_on_initialisation :: "real \<Rightarrow> VoltageDC \<Rightarrow> VoltageDC" where
  "VoltageDC_on_initialisation ambient_temp_c self = self\<lparr>v_temp_c := ambient_temp_c\<rparr>"

definition VoltageDC_on_line_connect ::
  "string \<Rightarrow> UUID \<Rightarrow> PhysicalProperties \<Rightarrow> VoltageDC \<Rightarrow> (unit, VoltageDC) outcome" where
  "VoltageDC_on_line_connect component_line_key line_uuid line_properties self =
     (case v_pins self component_line_key of
        None \<Rightarrow> (Inl (KeyError component_line_key), self)
      | Some (basis, lines) \<Rightarrow>
          (Inr (), self\<lparr>v_pins := (v_pins self)(component_line_key \<mapsto>
                          (basis, lines(str line_uuid \<mapsto> line_properties)))\<rparr>))"

definition VoltageDC_on_line_disconnect ::
  "string \<Rightarrow> UUID \<Rightarrow> VoltageDC \<Rightarrow> (unit, VoltageDC) outcome" where
  "VoltageDC_on_line_disconnect component_line_key line_id self =
     (case v_pins self component_line_key of
        None \<Rightarrow> (Inl (KeyError component_line_key), self)
      | Some (basis, lines) \<Rightarrow>
          (case lines (str line_id) of
             None \<Rightarrow> (Inl (KeyError (str line_id)), self)
           | Some p \<Rightarrow>
               (Inr (), self\<lparr>v_pins := (v_pins self)(component_line_key \<mapsto>
                               (basis, lines(str line_id := None)))\<rparr>)))"

definition VoltageDC_on_tdelta :: "int \<Rightarrow> VoltageDC \<Rightarrow> (unit, VoltageDC) outcome" where
  "VoltageDC_on_tdelta tick self = (Inl NotImplementedError, self)"

text \<open>
  \<^verbatim>\<open>VoltageDC.on_set_attribute\<close>. \<^verbatim>\<open>key not in self._attrib_type_map\<close> raises \<^verbatim>\<open>TypeError\<close>
  when the map is \<^verbatim>\<open>None\<close>. After the two guards the method stores into
  \<^verbatim>\<open>self._state['attribute']\<close>, a key \<^verbatim>\<open>_state\<close> does not have (\<^verbatim>\<open>__init__\<close> creates
  \<^verbatim>\<open>'attributes'\<close>), so the lookup raises \<^verbatim>\<open>KeyError\<close>; the method has no \<^verbatim>\<open>return\<close> after
  the store.
\<close>

definition VoltageDC_on_set_attribute ::
  "string \<Rightarrow> pyval \<Rightarrow> VoltageDC \<Rightarrow> (pyval, VoltageDC) outcome" where
  "VoltageDC_on_set_attribute key val self =
     (case v_attrib_type_map self of
        None \<Rightarrow> (Inl (TypeError (NotIterable ''NoneType'')), self)
      | Some attrib_type_map \<Rightarrow>
          (case attrib_type_map key of
             None \<Rightarrow> (Inr (PyBool False), self)
           | Some t \<Rightarrow>
               if \<not> isinstance val t then (Inr (PyBool False), self)
               else (Inl (KeyError ''attribute''), self)))"

definition VoltageDC_attribute_lookup :: "VoltageDC \<Rightarrow> (string \<rightharpoonup> pytype) option" where
  "VoltageDC_attribute_lookup self = v_attrib_type_map self"

definition VoltageDC_input_basis_table :: "VoltageDC \<Rightarrow> (string \<rightharpoonup> PhysicalProperties)" where
  "VoltageDC_input_basis_table self = [''pos'' \<mapsto> v_basis self, ''neg:'' \<mapsto> v_basis self]"

subsection \<open>Dynamic dispatch on the component's class\<close>

fun on_line_connect ::
  "string \<Rightarrow> UUID \<Rightarrow> PhysicalProperties \<Rightarrow> ComponentNode \<Rightarrow> (unit, ComponentNode) outcome" where
  "on_line_connect k u p (IsResistor r) =
     (case Resistor_on_line_connect k u p r of (res, r') \<Rightarrow> (res, IsResistor r'))"
| "on_line_connect k u p (IsVoltageDC v) =
     (case VoltageDC_on_line_connect k u p v of (res, v') \<Rightarrow> (res, IsVoltageDC v'))"

fun on_line_disconnect ::
  "string \<Rightarrow> UUID \<Rightarrow> ComponentNode \<Rightarrow> (unit, ComponentNode) outcome" where
  "on_line_disconnect k u (IsResistor r) =
     (case Resistor_on_line_disconnect k u r of (res, r') \<Rightarrow> (res, IsResistor r'))"
| "on_line_disconnect k u (IsVoltageDC v) =
     (case VoltageDC_on_line_disconnect k u v of (res, v') \<Rightarrow> (res, IsVoltageDC v'))"

fun on_set_attribute :: "string \<Rightarrow> pyval \<Rightarrow> ComponentNode \<Rightarrow> (pyval, ComponentNode) outcome" where
  "on_set_attribute k x (IsResistor r) =
     (case Resistor_on_set_attribute k x r of (res, r') \<Rightarrow> (res, IsResistor r'))"
| "on_set_attribute k x (IsVoltageDC v) =
     (case VoltageDC_on_set_attribute k x v of (res, v') \<Rightarrow> (res, IsVoltageDC v'))"

fun attribute_lookup :: "ComponentNode \<Rightarrow> (string \<rightharpoonup> pytype) option" where
  "attribute_lookup (IsResistor r) = Resistor_attribute_lookup r"
| "attribute_lookup (IsVoltageDC v) = VoltageDC_attribute_lookup v"

text \<open>The pin dictionary \<^verbatim>\<open>_state['pins']\<close> of a component of either class.\<close>

fun pins :: "ComponentNode \<Rightarrow> pin_table" where
  "pins (IsResistor r) = r_pins r"
| "pins (IsVoltageDC v) = v_pins v"

section \<open>CircuitGraph\<close>

text \<open>
  Components are mutable objects that the graph, its label table and the caller share by
  reference: they live in a store, and the graph holds addresses. A \<^verbatim>\<open>LineEdge\<close> is
  never changed after its construction and is held by value. \<open>OtherObj\<close> is any argument
  of \<^verbatim>\<open>define\<close> that is neither a \<^verbatim>\<open>ComponentNode\<close> nor a \<^verbatim>\<open>LineEdge\<close>.
\<close>

type_synonym addr = nat

datatype item = ComponentRef addr | EdgeObj LineEdge | OtherObj pyval

record CircuitGraph =
  labels :: "string \<rightharpoonup> item"
  l_edges :: "LineEdge list"
  c_nodes :: "addr list"

definition CircuitGraph_init :: CircuitGraph where
  "CircuitGraph_init = \<lparr>labels = Map.empty, l_edges = [], c_nodes = []\<rparr>"

definition CircuitGraph_define :: "string \<Rightarrow> item \<Rightarrow> CircuitGraph \<Rightarrow> (unit, CircuitGraph) outcome" where
  "CircuitGraph_define label it self =
     (if label \<in> dom (labels self)
      then (Inl (KeyError ''CircuitGraph.define(): Cannot define component''), self)
      else case it of
          ComponentRef a \<Rightarrow>
            (Inr (), self\<lparr>c_nodes := c_nodes self @ [a],
                          labels := (labels self)(label \<mapsto> ComponentRef a)\<rparr>)
        | EdgeObj e \<Rightarrow>
            (Inr (), self\<lparr>l_edges := l_edges self @ [e],
                          labels := (labels self)(label \<mapsto> EdgeObj e)\<rparr>)
        | OtherObj x \<Rightarrow>
            (Inl (TypeError (Message
                    (''CircuitGraph.define(): Attempt to add unrecognised item type provided: ''
                     @ type_name x @ ''  with label '' @ label @ ''.''))), self))"

text \<open>The store of component objects together with the graph.\<close>

record world =
  heap :: "addr \<Rightarrow> ComponentNode"
  graph :: CircuitGraph

text \<open>
  One line of \<^verbatim>\<open>link\<close>: \<^verbatim>\<open>self._labels[lbl].on_line_connect(pin, uid, props)\<close>. The
  subscript raises \<^verbatim>\<open>KeyError(lbl)\<close> for an absent label; an object that is not a
  component has no attribute \<^verbatim>\<open>on_line_connect\<close>.
\<close>

definition labels_on_line_connect ::
  "string \<Rightarrow> string \<Rightarrow> UUID \<Rightarrow> PhysicalProperties \<Rightarrow> world \<Rightarrow> (unit, world) outcome" where
  "labels_on_line_connect lbl pin uid props w =
     (case labels (graph w) lbl of
        None \<Rightarrow> (Inl (KeyError lbl), w)
      | Some (ComponentRef a) \<Rightarrow>
          (case on_line_connect pin uid props (heap w a) of
             (res, c') \<Rightarrow> (res, w\<lparr>heap := (heap w)(a := c')\<rparr>))
      | Some (EdgeObj e) \<Rightarrow>
          (Inl (AttributeError ''LineEdge'' ''on_line_connect''), w)
      | Some (OtherObj x) \<Rightarrow>
          (Inl (AttributeError (type_name x) ''on_line_connect''), w))"

definition default_line_properties :: PhysicalProperties where
  "default_line_properties =
     \<lparr>resistance_ohms = 1 / 10, capacitance_farads = 0, inductance_teslas = 0,
      temperature_delta_celsius = 0\<rparr>"

text \<open>
  \<^verbatim>\<open>CircuitGraph.link\<close>; \<open>uuid4\<close> is the value the call of \<^verbatim>\<open>uuid4()\<close> inside
  \<^verbatim>\<open>LineEdge.__init__\<close> returns.
\<close>

definition CircuitGraph_link ::
  "UUID \<Rightarrow> string \<Rightarrow> string \<times> string \<Rightarrow> string \<times> string \<Rightarrow> PhysicalProperties \<Rightarrow> world
     \<Rightarrow> (UUID, world) outcome" where
  "CircuitGraph_link uuid4 label component_u_label_pin component_v_label_pin line_properties w =
     (let (u_id, u_pin) = component_u_label_pin;
          (v_id, v_pin) = component_v_label_pin;
          edge = LineEdge_init uuid4 line_properties u_id u_pin v_id v_pin
      in case labels_on_line_connect u_id u_pin (uuid edge) line_properties w of
           (Inl e, w1) \<Rightarrow> (Inl e, w1)
         | (Inr _, w1) \<Rightarrow>
             (case labels_on_line_connect v_id v_pin (uuid edge) line_properties w1 of
                (Inl e, w2) \<Rightarrow> (Inl e, w2)
              | (Inr _, w2) \<Rightarrow>
                  (case CircuitGraph_define label (EdgeObj edge) (graph w2) of
                     (Inl e, g) \<Rightarrow> (Inl e, w2\<lparr>graph := g\<rparr>)
                   | (Inr _, g) \<Rightarrow> (Inr (uuid edge), w2\<lparr>graph := g\<rparr>))))"

text \<open>
  A caller that issues a sequence of \<^verbatim>\<open>define\<close> calls, catching the exception of each:
  the outcomes in order, and the graph at the end.
\<close>

fun define_all :: "(string \<times> item) list \<Rightarrow> CircuitGraph \<Rightarrow> (error + unit) list \<times> CircuitGraph" where
  "define_all [] g = ([], g)"
| "define_all ((label, it) # calls) g =
     (case CircuitGraph_define label it g of
        (res, g') \<Rightarrow> (case define_all calls g' of (ress, g'') \<Rightarrow> (res # ress, g'')))"

text \<open>
  The labels of the calls of a sequence that returned normally, in order.
\<close>

fun succeeded_labels :: "(string \<times> item) list \<Rightarrow> (error + unit) list \<Rightarrow> string list" where
  "succeeded_labels ((label, it) # calls) (Inr u # ress) = label # succeeded_labels calls ress"
| "succeeded_labels ((label, it) # calls) (Inl e # ress) = succeeded_labels calls ress"
| "succeeded_labels calls ress = []"


subsection \<open>A small circuit\<close>

text \<open>
  \<^verbatim>\<open>g = CircuitGraph(); g.define('v', VoltageDC()); g.define('r', Resistor())\<close>, the source
  object at address 0 and the resistor at address 1 (every other address holds a resistor
  that nothing refers to).
\<close>

definition demo_graph :: CircuitGraph where
  "demo_graph =
     snd (CircuitGraph_define ''r'' (ComponentRef 1)
       (snd (CircuitGraph_define ''v'' (ComponentRef 0) CircuitGraph_init)))"

definition demo_world :: world where
  "demo_world =
     \<lparr>heap = (\<lambda>a. if a = 0 then IsVoltageDC VoltageDC_init else IsResistor Resistor_init),
      graph = demo_graph\<rparr>"

definition demo_uuid :: UUID where
  "demo_uuid = UUID ''16fd2706-8baf-433b-82eb-8c7fada847da''"

text \<open>
  The same circuit after \<^verbatim>\<open>g.link('e', ('v', 'pos'), ('r', 'p1'))\<close>, and the id a second
  call of \<^verbatim>\<open>uuid4()\<close> returns.
\<close>

definition linked_world :: world where
  "linked_world =
     snd (CircuitGraph_link demo_uuid ''e'' (''v'', ''pos'') (''r'', ''p1'')
            default_line_properties demo_world)"

definition demo_uuid2 :: UUID where
  "demo_uuid2 = UUID ''886313e1-3b8a-5372-9b90-0c9aee199e5d''"

section \<open>What the operations do\<close>

lemmas component_defs =
  Resistor_on_line_connect_def Resistor_on_line_disconnect_def
  VoltageDC_on_line_connect_def VoltageDC_on_line_disconnect_def

lemma demo_graph_eq:
  "demo_graph =
     \<lparr>labels = [''v'' \<mapsto> ComponentRef 0, ''r'' \<mapsto> ComponentRef 1], l_edges = [], c_nodes = [0, 1]\<rparr>"
  by (simp add: demo_graph_def CircuitGraph_define_def CircuitGraph_init_def)

subsection \<open>Connecting a line to a pin\<close>

lemma on_line_connect_cases:
  "on_line_connect pin uid props c =
     (case pins c pin of
        None \<Rightarrow> (Inl (KeyError pin), c)
      | Some (b, l) \<Rightarrow> (Inr (), snd (on_line_connect pin uid props c)))"
  by (cases c) (auto simp: component_defs split: option.splits)

lemma on_line_connect_pins:
  "pins c pin = Some (b, l) \<Longrightarrow>
   pins (snd (on_line_connect pin uid props c)) = (pins c)(pin \<mapsto> (b, l(str uid \<mapsto> props)))"
  by (cases c) (auto simp: component_defs split: option.splits)

lemma on_line_connect_unknown:
  "pin \<notin> dom (pins c) \<Longrightarrow> on_line_connect pin uid props c = (Inl (KeyError pin), c)"
  by (cases c) (auto simp: component_defs domIff split: option.splits)

lemma on_line_connect_known:
  assumes "pin \<in> dom (pins c)"
  shows "\<exists>c' b l. on_line_connect pin uid props c = (Inr (), c') \<and> pins c pin = Some (b, l)
           \<and> pins c' = (pins c)(pin \<mapsto> (b, l(str uid \<mapsto> props)))"
proof -
  from assms obtain b l where bl: "pins c pin = Some (b, l)"
    by auto
  have "on_line_connect pin uid props c = (Inr (), snd (on_line_connect pin uid props c))"
    using on_line_connect_cases [of pin uid props c] bl by simp
  with bl on_line_connect_pins [OF bl, of uid props] show ?thesis
    by blast
qed

subsection \<open>define\<close>

lemma define_returns:
  "fst (CircuitGraph_define label it g) = Inr u \<Longrightarrow>
     label \<notin> dom (labels g)
     \<and> dom (labels (snd (CircuitGraph_define label it g))) = insert label (dom (labels g))"
  by (auto simp: CircuitGraph_define_def split: if_splits item.splits)

lemma define_raises:
  "fst (CircuitGraph_define label it g) = Inl e \<Longrightarrow> snd (CircuitGraph_define label it g) = g"
  by (auto simp: CircuitGraph_define_def split: if_splits item.splits)

lemma define_all_length: "length (fst (define_all calls g)) = length calls"
proof (induction calls arbitrary: g)
  case Nil
  then show ?case by simp
next
  case (Cons c calls)
  obtain label it where c: "c = (label, it)"
    by (cases c)
  obtain res g' where d: "CircuitGraph_define label it g = (res, g')"
    by (cases "CircuitGraph_define label it g")
  obtain ress g'' where a: "define_all calls g' = (ress, g'')"
    by (cases "define_all calls g'")
  from Cons.IH [of g'] a have "length ress = length calls"
    by simp
  with c d a show ?case
    by simp
qed

lemma define_all_succeeded:
  "distinct (succeeded_labels calls (fst (define_all calls g)))
   \<and> set (succeeded_labels calls (fst (define_all calls g))) \<inter> dom (labels g) = {}
   \<and> dom (labels (snd (define_all calls g)))
       = dom (labels g) \<union> set (succeeded_labels calls (fst (define_all calls g)))"
proof (induction calls arbitrary: g)
  case Nil
  then show ?case by simp
next
  case (Cons c calls)
  obtain label it where c: "c = (label, it)"
    by (cases c)
  obtain res g' where d: "CircuitGraph_define label it g = (res, g')"
    by (cases "CircuitGraph_define label it g")
  obtain ress g'' where a: "define_all calls g' = (ress, g'')"
    by (cases "define_all calls g'")
  note IH = Cons.IH [of g', unfolded a, simplified]
  show ?case
  proof (cases res)
    case (Inl e)
    with d have "g' = g"
      using define_raises [of label it g e] by simp
    with IH Inl c d a show ?thesis
      by simp
  next
    case (Inr u)
    with d have "label \<notin> dom (labels g)" "dom (labels g') = insert label (dom (labels g))"
      using define_returns [of label it g u] by simp_all
    with IH Inr c d a show ?thesis
      by auto
  qed
qed

subsection \<open>link\<close>

lemma labels_on_line_connect_graph:
  "graph (snd (labels_on_line_connect lbl pin uid props w)) = graph w"
  by (auto simp: labels_on_line_connect_def split: option.splits item.splits prod.splits)

lemma labels_on_line_connect_not_component:
  "(\<nexists>a. labels (graph w) lbl = Some (ComponentRef a)) \<Longrightarrow>
   \<exists>e. labels_on_line_connect lbl pin uid props w = (Inl e, w)
       \<and> (e = KeyError lbl \<or> (\<exists>cls. e = AttributeError cls ''on_line_connect''))"
  by (auto simp: labels_on_line_connect_def split: option.splits item.splits prod.splits)

lemma labels_on_line_connect_error:
  assumes "fst (labels_on_line_connect lbl pin uid props w) = Inl e"
  shows "e = KeyError lbl \<or> e = KeyError pin \<or> (\<exists>cls. e = AttributeError cls ''on_line_connect'')"
proof (cases "labels (graph w) lbl")
  case None
  with assms show ?thesis
    by (simp add: labels_on_line_connect_def)
next
  case (Some it)
  show ?thesis
  proof (cases it)
    case (ComponentRef a)
    with Some assms have "fst (on_line_connect pin uid props (heap w a)) = Inl e"
      by (simp add: labels_on_line_connect_def split: prod.splits)
    then have "e = KeyError pin"
      by (cases "heap w a") (auto simp: component_defs split: option.splits)
    then show ?thesis by simp
  next
    case (EdgeObj x)
    with Some assms show ?thesis
      by (auto simp: labels_on_line_connect_def)
  next
    case (OtherObj x)
    with Some assms show ?thesis
      by (auto simp: labels_on_line_connect_def)
  qed
qed

section \<open>The claims\<close>




text \<open>
  Claim C2, as the code has it. \<^verbatim>\<open>define\<close> tests the label first: a call whose label \<open>dup\<close>
  is already in the label table raises the duplicate-label \<^verbatim>\<open>KeyError\<close>, whatever the
  item, and changes nothing; a call whose label \<open>new\<close> is not in the table and whose item
  is neither a component nor an edge raises the unrecognised-item \<^verbatim>\<open>TypeError\<close> and
  changes nothing. In every sequence of \<^verbatim>\<open>define\<close> calls, run from any graph, there is one
  outcome per call, the labels of the calls that succeed are pairwise different, and
  none of them was in the label table before.
\<close>

theorem define_labels_unique:
  "(dup \<in> dom (labels g) \<longrightarrow>
      CircuitGraph_define dup it g
        = (Inl (KeyError ''CircuitGraph.define(): Cannot define component''), g))
   \<and> (new \<notin> dom (labels g) \<longrightarrow>
      CircuitGraph_define new (OtherObj x) g
        = (Inl (TypeError (Message
             (''CircuitGraph.define(): Attempt to add unrecognised item type provided: ''
              @ type_name x @ ''  with label '' @ new @ ''.''))), g))
   \<and> length (fst (define_all calls g)) = length calls
   \<and> distinct (succeeded_labels calls (fst (define_all calls g)))
   \<and> set (succeeded_labels calls (fst (define_all calls g))) \<inter> dom (labels g) = {}"
  using define_all_succeeded [of calls g] define_all_length [of calls g]
  by (simp add: CircuitGraph_define_def)

theorem define_labels_unique_witness:
  "''v'' \<in> dom (labels demo_graph)
   \<and> ''a'' \<notin> dom (labels demo_graph)
   \<and> fst (CircuitGraph_define ''v'' (ComponentRef 2) demo_graph)
        = Inl (KeyError ''CircuitGraph.define(): Cannot define component'')
   \<and> fst (CircuitGraph_define ''a'' (OtherObj (PyInt 7)) demo_graph)
        = Inl (TypeError (Message
             ''CircuitGraph.define(): Attempt to add unrecognised item type provided: int  with label a.''))
   \<and> distinct (succeeded_labels [(''a'', ComponentRef 2), (''a'', ComponentRef 3)]
        (fst (define_all [(''a'', ComponentRef 2), (''a'', ComponentRef 3)] demo_graph)))"
proof -
  have h1: "''v'' \<in> dom (labels demo_graph)"
    by (simp add: demo_graph_eq)
  have h2: "''a'' \<notin> dom (labels demo_graph)"
    by (simp add: demo_graph_eq)
  from define_labels_unique [of "''v''" demo_graph "ComponentRef 2" "''a''" "PyInt 7"
      "[(''a'', ComponentRef 2), (''a'', ComponentRef 3)]"] h1 h2
  show ?thesis
    by simp
qed

text \<open>
  Claim C2 as stated lets every call with an unrecognised item fail with the
  unrecognised-item condition. When the label is taken as well, the duplicate-label test
  comes first: in the circuit with the labels \<open>v\<close> and \<open>r\<close>, defining \<^verbatim>\<open>None\<close> under \<open>v\<close>
  raises the \<^verbatim>\<open>KeyError\<close>, not the \<^verbatim>\<open>TypeError\<close>.
\<close>

theorem define_unrecognised_item_taken_label_counterexample:
  "fst (CircuitGraph_define ''v'' (OtherObj PyNone) demo_graph)
     = Inl (KeyError ''CircuitGraph.define(): Cannot define component'')
   \<and> fst (CircuitGraph_define ''v'' (OtherObj PyNone) demo_graph)
     \<noteq> Inl (TypeError (Message
          ''CircuitGraph.define(): Attempt to add unrecognised item type provided: NoneType  with label v.''))"
  by (simp add: CircuitGraph_define_def demo_graph_eq)

text \<open>
  What \<^verbatim>\<open>link\<close> raises, case by case, when an endpoint label names no component. The
  endpoint \<open>u\<close> is looked up and connected first, then \<open>v\<close>.
\<close>

lemma link_u_absent:
  "labels (graph w) u_id = None \<Longrightarrow>
   CircuitGraph_link uid label (u_id, u_pin) (v_id, v_pin) props w = (Inl (KeyError u_id), w)"
  by (simp add: CircuitGraph_link_def LineEdge_init_def labels_on_line_connect_def)

lemma link_u_edge:
  "labels (graph w) u_id = Some (EdgeObj x) \<Longrightarrow>
   CircuitGraph_link uid label (u_id, u_pin) (v_id, v_pin) props w
     = (Inl (AttributeError ''LineEdge'' ''on_line_connect''), w)"
  by (simp add: CircuitGraph_link_def LineEdge_init_def labels_on_line_connect_def)

lemma link_u_pin_unknown:
  assumes "labels (graph w) u_id = Some (ComponentRef au)"
      and "bad_pin \<notin> dom (pins (heap w au))"
  shows "CircuitGraph_link uid label (u_id, bad_pin) (v_id, v_pin) props w
           = (Inl (KeyError bad_pin), w)"
  using assms on_line_connect_unknown [OF assms(2), of uid props]
  by (simp add: CircuitGraph_link_def LineEdge_init_def labels_on_line_connect_def)

lemma link_u_connected:
  assumes "labels (graph w) u_id = Some (ComponentRef au)"
      and "u_pin \<in> dom (pins (heap w au))"
  shows "labels_on_line_connect u_id u_pin uid props w
           = (Inr (), w\<lparr>heap := (heap w)(au := snd (on_line_connect u_pin uid props (heap w au)))\<rparr>)"
proof -
  from on_line_connect_known [OF assms(2), of uid props]
  obtain c' where "on_line_connect u_pin uid props (heap w au) = (Inr (), c')"
    by blast
  with assms(1) show ?thesis
    by (simp add: labels_on_line_connect_def)
qed

lemma link_v_absent:
  assumes "labels (graph w) u_id = Some (ComponentRef au)"
      and "u_pin \<in> dom (pins (heap w au))"
      and "labels (graph w) v_id = None"
  shows "CircuitGraph_link uid label (u_id, u_pin) (v_id, v_pin) props w
           = (Inl (KeyError v_id),
              w\<lparr>heap := (heap w)(au := snd (on_line_connect u_pin uid props (heap w au)))\<rparr>)"
proof -
  let ?w1 = "w\<lparr>heap := (heap w)(au := snd (on_line_connect u_pin uid props (heap w au)))\<rparr>"
  have "labels_on_line_connect v_id v_pin uid props ?w1 = (Inl (KeyError v_id), ?w1)"
    using assms(3) by (simp add: labels_on_line_connect_def)
  with link_u_connected [OF assms(1,2), of uid props] show ?thesis
    by (simp add: CircuitGraph_link_def LineEdge_init_def Let_def)
qed

lemma link_v_edge:
  assumes "labels (graph w) u_id = Some (ComponentRef au)"
      and "u_pin \<in> dom (pins (heap w au))"
      and "labels (graph w) v_id = Some (EdgeObj x)"
  shows "CircuitGraph_link uid label (u_id, u_pin) (v_id, v_pin) props w
           = (Inl (AttributeError ''LineEdge'' ''on_line_connect''),
              w\<lparr>heap := (heap w)(au := snd (on_line_connect u_pin uid props (heap w au)))\<rparr>)"
proof -
  let ?w1 = "w\<lparr>heap := (heap w)(au := snd (on_line_connect u_pin uid props (heap w au)))\<rparr>"
  have "labels_on_line_connect v_id v_pin uid props ?w1
          = (Inl (AttributeError ''LineEdge'' ''on_line_connect''), ?w1)"
    using assms(3) by (simp add: labels_on_line_connect_def)
  with link_u_connected [OF assms(1,2), of uid props] show ?thesis
    by (simp add: CircuitGraph_link_def LineEdge_init_def Let_def)
qed

lemma link_not_component_raises:
  assumes "(\<nexists>a. labels (graph w) u_id = Some (ComponentRef a))
         \<or> (\<nexists>a. labels (graph w) v_id = Some (ComponentRef a))"
  shows "\<exists>e. fst (CircuitGraph_link uid label (u_id, u_pin) (v_id, v_pin) props w) = Inl e"
proof -
  obtain r1 w1 where s1: "labels_on_line_connect u_id u_pin uid props w = (r1, w1)"
    by (cases "labels_on_line_connect u_id u_pin uid props w")
  show ?thesis
  proof (cases r1)
    case (Inl e)
    with s1 show ?thesis
      by (simp add: CircuitGraph_link_def LineEdge_init_def)
  next
    case (Inr u)
    have "\<exists>a. labels (graph w) u_id = Some (ComponentRef a)"
      using labels_on_line_connect_not_component [of w u_id u_pin uid props] s1 Inr by auto
    with assms have v_bad: "\<nexists>a. labels (graph w) v_id = Some (ComponentRef a)"
      by blast
    have "graph w1 = graph w"
      using labels_on_line_connect_graph [of u_id u_pin uid props w] s1 by simp
    with v_bad have "\<nexists>a. labels (graph w1) v_id = Some (ComponentRef a)"
      by simp
    from labels_on_line_connect_not_component [OF this, of v_pin uid props]
    obtain e where "labels_on_line_connect v_id v_pin uid props w1 = (Inl e, w1)"
      by blast
    then have "fst (CircuitGraph_link uid label (u_id, u_pin) (v_id, v_pin) props w) = Inl e"
      using s1 Inr by (simp add: CircuitGraph_link_def LineEdge_init_def)
    then show ?thesis
      by blast
  qed
qed

lemma linked_world_eq:
  "linked_world =
     \<lparr>heap = (heap demo_world)
         (0 := snd (on_line_connect ''pos'' demo_uuid default_line_properties (heap demo_world 0)),
          1 := snd (on_line_connect ''p1'' demo_uuid default_line_properties (heap demo_world 1))),
      graph = \<lparr>labels = [''v'' \<mapsto> ComponentRef 0, ''r'' \<mapsto> ComponentRef 1,
                          ''e'' \<mapsto> EdgeObj \<lparr>uuid = demo_uuid, conductor = default_line_properties,
                             u_component_id = ''v'', u_component_pin = ''pos'',
                             v_component_id = ''r'', v_component_pin = ''p1''\<rparr>],
               l_edges = [\<lparr>uuid = demo_uuid, conductor = default_line_properties,
                           u_component_id = ''v'', u_component_pin = ''pos'',
                           v_component_id = ''r'', v_component_pin = ''p1''\<rparr>],
               c_nodes = [0, 1]\<rparr>\<rparr>"
  by (simp add: linked_world_def CircuitGraph_link_def LineEdge_init_def
      labels_on_line_connect_def demo_world_def demo_graph_eq CircuitGraph_define_def
      component_defs Resistor_init_def VoltageDC_init_def Let_def)

lemma linked_world_pins:
  "dom (pins (heap linked_world 0)) = {''pos'', ''neg''}"
  "dom (pins (heap linked_world 1)) = {''p1'', ''p2''}"
  by (auto simp: linked_world_eq demo_world_def component_defs Resistor_init_def
      VoltageDC_init_def Let_def split: if_splits)

text \<open>
  Claim C3, as the code has it. The module has no exception of its own for an unknown
  label; what the caller receives from \<^verbatim>\<open>link\<close> is the exception of the first lookup that
  fails, and \<^verbatim>\<open>link\<close> catches nothing. Whenever \<open>u_id\<close> or \<open>v_id\<close> names no component, \<^verbatim>\<open>link\<close>
  raises and returns no id. The exception reports the label in these cases: the label
  of \<open>u\<close> is absent from the label table (\<^verbatim>\<open>KeyError\<close> of that label, nothing changed); the
  label of \<open>u\<close> names a component that has the pin and the label of \<open>v\<close> is absent
  (\<^verbatim>\<open>KeyError\<close> of that label, the component of \<open>u\<close> already connected). A label that names
  an edge gives the \<^verbatim>\<open>AttributeError\<close> of the missing method \<^verbatim>\<open>on_line_connect\<close> instead.
  When the label of \<open>u\<close> names a component without the pin, the \<^verbatim>\<open>KeyError\<close> reports the
  pin, whatever the label of \<open>v\<close> is, and nothing is changed.
\<close>

theorem link_unknown_label_raises:
  "(labels (graph w) absent = None \<longrightarrow>
      CircuitGraph_link uid label (absent, u_pin) (v_id, v_pin) props w
        = (Inl (KeyError absent), w))
   \<and> (labels (graph w) edge_label = Some (EdgeObj x) \<longrightarrow>
      CircuitGraph_link uid label (edge_label, u_pin) (v_id, v_pin) props w
        = (Inl (AttributeError ''LineEdge'' ''on_line_connect''), w))
   \<and> (labels (graph w) c_label = Some (ComponentRef au) \<and> u_pin \<in> dom (pins (heap w au))
        \<and> labels (graph w) absent = None \<longrightarrow>
      CircuitGraph_link uid label (c_label, u_pin) (absent, v_pin) props w
        = (Inl (KeyError absent),
           w\<lparr>heap := (heap w)(au := snd (on_line_connect u_pin uid props (heap w au)))\<rparr>))
   \<and> (labels (graph w) c_label = Some (ComponentRef au) \<and> u_pin \<in> dom (pins (heap w au))
        \<and> labels (graph w) edge_label = Some (EdgeObj x) \<longrightarrow>
      CircuitGraph_link uid label (c_label, u_pin) (edge_label, v_pin) props w
        = (Inl (AttributeError ''LineEdge'' ''on_line_connect''),
           w\<lparr>heap := (heap w)(au := snd (on_line_connect u_pin uid props (heap w au)))\<rparr>))
   \<and> (labels (graph w) c_label = Some (ComponentRef au) \<and> bad_pin \<notin> dom (pins (heap w au)) \<longrightarrow>
      CircuitGraph_link uid label (c_label, bad_pin) (v_id, v_pin) props w
        = (Inl (KeyError bad_pin), w))
   \<and> ((\<nexists>a. labels (graph w) u_id = Some (ComponentRef a))
        \<or> (\<nexists>a. labels (graph w) v_id = Some (ComponentRef a)) \<longrightarrow>
      (\<exists>e. fst (CircuitGraph_link uid label (u_id, u_pin) (v_id, v_pin) props w) = Inl e))"
  using link_u_absent [of w absent uid label u_pin v_id v_pin props]
    link_u_edge [of w edge_label x uid label u_pin v_id v_pin props]
    link_v_absent [of w c_label au u_pin absent uid label v_pin props]
    link_v_edge [of w c_label au u_pin edge_label x uid label v_pin props]
    link_u_pin_unknown [of w c_label au bad_pin uid label v_id v_pin props]
    link_not_component_raises [of w u_id v_id uid label u_pin v_pin props]
  by blast

theorem link_unknown_label_raises_witness:
  "labels (graph linked_world) ''x'' = None
   \<and> labels (graph linked_world) ''e'' = Some (EdgeObj \<lparr>uuid = demo_uuid,
        conductor = default_line_properties, u_component_id = ''v'', u_component_pin = ''pos'',
        v_component_id = ''r'', v_component_pin = ''p1''\<rparr>)
   \<and> labels (graph linked_world) ''v'' = Some (ComponentRef 0)
   \<and> ''neg'' \<in> dom (pins (heap linked_world 0))
   \<and> ''zz'' \<notin> dom (pins (heap linked_world 0))
   \<and> CircuitGraph_link demo_uuid2 ''f'' (''x'', ''neg'') (''r'', ''p2'')
        default_line_properties linked_world = (Inl (KeyError ''x''), linked_world)
   \<and> CircuitGraph_link demo_uuid2 ''f'' (''e'', ''neg'') (''r'', ''p2'')
        default_line_properties linked_world
       = (Inl (AttributeError ''LineEdge'' ''on_line_connect''), linked_world)
   \<and> fst (CircuitGraph_link demo_uuid2 ''f'' (''v'', ''neg'') (''x'', ''p2'')
        default_line_properties linked_world) = Inl (KeyError ''x'')
   \<and> fst (CircuitGraph_link demo_uuid2 ''f'' (''v'', ''neg'') (''e'', ''p2'')
        default_line_properties linked_world) = Inl (AttributeError ''LineEdge'' ''on_line_connect'')
   \<and> CircuitGraph_link demo_uuid2 ''f'' (''v'', ''zz'') (''r'', ''p2'')
        default_line_properties linked_world = (Inl (KeyError ''zz''), linked_world)"
proof -
  have h1: "labels (graph linked_world) ''x'' = None"
    by (simp add: linked_world_eq)
  have h2: "labels (graph linked_world) ''e'' = Some (EdgeObj \<lparr>uuid = demo_uuid,
        conductor = default_line_properties, u_component_id = ''v'', u_component_pin = ''pos'',
        v_component_id = ''r'', v_component_pin = ''p1''\<rparr>)"
    by (simp add: linked_world_eq)
  have h3: "labels (graph linked_world) ''v'' = Some (ComponentRef 0)"
    by (simp add: linked_world_eq)
  have h4: "''neg'' \<in> dom (pins (heap linked_world 0))"
    by (simp add: linked_world_pins)
  have h5: "''zz'' \<notin> dom (pins (heap linked_world 0))"
    by (simp add: linked_world_pins)
  note t = link_unknown_label_raises [of linked_world "''x''" demo_uuid2 "''f''" "''neg''"
      "''r''" "''p2''" default_line_properties "''e''" _ "''v''" 0 "''zz''" "''x''"]
  from t h1 have c1: "CircuitGraph_link demo_uuid2 ''f'' (''x'', ''neg'') (''r'', ''p2'')
        default_line_properties linked_world = (Inl (KeyError ''x''), linked_world)"
    by blast
  from t h2 have c2: "CircuitGraph_link demo_uuid2 ''f'' (''e'', ''neg'') (''r'', ''p2'')
        default_line_properties linked_world
       = (Inl (AttributeError ''LineEdge'' ''on_line_connect''), linked_world)"
    by blast
  from t h1 h3 h4 have c3: "fst (CircuitGraph_link demo_uuid2 ''f'' (''v'', ''neg'') (''x'', ''p2'')
        default_line_properties linked_world) = Inl (KeyError ''x'')"
    by simp
  from t h2 h3 h4 have c4: "fst (CircuitGraph_link demo_uuid2 ''f'' (''v'', ''neg'') (''e'', ''p2'')
        default_line_properties linked_world) = Inl (AttributeError ''LineEdge'' ''on_line_connect'')"
    by simp
  from t h3 h5 have c5: "CircuitGraph_link demo_uuid2 ''f'' (''v'', ''zz'') (''r'', ''p2'')
        default_line_properties linked_world = (Inl (KeyError ''zz''), linked_world)"
    by blast
  from h1 h2 h3 h4 h5 c1 c2 c3 c4 c5 show ?thesis
    by blast
qed

text \<open>
  Claim C3 as stated has \<^verbatim>\<open>link\<close> fail with an unknown-label condition whenever an endpoint
  label names no component. In the linked circuit (source \<open>v\<close>, resistor \<open>r\<close>, edge \<open>e\<close>) a
  link from the unknown pin \<open>zz\<close> of \<open>v\<close> to the undefined label \<open>x\<close> raises the \<^verbatim>\<open>KeyError\<close> of
  the pin, not of the label, and a link whose first endpoint is the edge label \<open>e\<close>
  raises \<^verbatim>\<open>AttributeError\<close>, no \<^verbatim>\<open>KeyError\<close> at all.
\<close>

theorem link_unknown_label_reported_as_pin_counterexample:
  "labels (graph linked_world) ''x'' = None
   \<and> fst (CircuitGraph_link demo_uuid2 ''f'' (''v'', ''zz'') (''x'', ''p1'')
          default_line_properties linked_world) = Inl (KeyError ''zz'')
   \<and> fst (CircuitGraph_link demo_uuid2 ''f'' (''v'', ''zz'') (''x'', ''p1'')
          default_line_properties linked_world) \<noteq> Inl (KeyError ''x'')
   \<and> fst (CircuitGraph_link demo_uuid2 ''f'' (''e'', ''pos'') (''r'', ''p1'')
          default_line_properties linked_world)
       = Inl (AttributeError ''LineEdge'' ''on_line_connect'')"
  by (simp add: linked_world_eq CircuitGraph_link_def LineEdge_init_def
      labels_on_line_connect_def demo_world_def component_defs
      Resistor_init_def VoltageDC_init_def Let_def)

text \<open>
  Claim C4 does not hold of the code. \<^verbatim>\<open>link\<close> never reads \<^verbatim>\<open>input_basis_table\<close>; the
  pins it accepts are the keys of \<^verbatim>\<open>_state['pins']\<close>. In the circuit with the source \<open>v\<close>
  and the resistor \<open>r\<close>, linking the source's pin \<open>neg\<close> to the resistor's pin \<open>p1\<close>
  succeeds and leaves the new edge in the edge list, while \<open>neg\<close> is no key of the
  source's \<^verbatim>\<open>input_basis_table\<close> (its keys are \<open>pos\<close> and \<open>neg:\<close>) and the resistor's
  \<^verbatim>\<open>input_basis_table()\<close> raises \<^verbatim>\<open>TypeError\<close>.
\<close>

theorem link_pin_outside_basis_table:
  "fst (CircuitGraph_link demo_uuid ''e'' (''v'', ''neg'') (''r'', ''p1'')
          default_line_properties demo_world) = Inr demo_uuid
   \<and> l_edges (graph (snd (CircuitGraph_link demo_uuid ''e'' (''v'', ''neg'') (''r'', ''p1'')
          default_line_properties demo_world)))
      = [\<lparr>uuid = demo_uuid, conductor = default_line_properties,
          u_component_id = ''v'', u_component_pin = ''neg'',
          v_component_id = ''r'', v_component_pin = ''p1''\<rparr>]
   \<and> heap demo_world 0 = IsVoltageDC VoltageDC_init
   \<and> ''neg'' \<notin> dom (VoltageDC_input_basis_table VoltageDC_init)
   \<and> heap demo_world 1 = IsResistor Resistor_init
   \<and> Resistor_input_basis_table Resistor_init
        = Inl (TypeError (UnhashableType ''PhysicalProperties''))"
  by (simp add: CircuitGraph_link_def LineEdge_init_def labels_on_line_connect_def
      demo_world_def demo_graph_eq CircuitGraph_define_def component_defs
      Resistor_init_def VoltageDC_init_def VoltageDC_input_basis_table_def
      Resistor_input_basis_table_def Let_def)

text \<open>
  Claim C5 does not hold of the code. On a \<^verbatim>\<open>VoltageDC\<close> as \<^verbatim>\<open>__init__\<close> builds it,
  \<^verbatim>\<open>on_set_attribute\<close> raises \<^verbatim>\<open>TypeError\<close> for every key and value, because
  \<^verbatim>\<open>_attrib_type_map\<close> is \<^verbatim>\<open>None\<close>; and on no component, in no state, does
  \<^verbatim>\<open>on_set_attribute\<close> return \<^verbatim>\<open>True\<close>.
\<close>

theorem on_set_attribute_never_accepts:
  "VoltageDC_on_set_attribute key val VoltageDC_init
     = (Inl (TypeError (NotIterable ''NoneType'')), VoltageDC_init)
   \<and> v_attributes VoltageDC_init ''voltage_selector_state'' = Some T_float
   \<and> fst (on_set_attribute key val c) \<noteq> Inr (PyBool True)"
  by (cases c)
     (auto simp: VoltageDC_on_set_attribute_def VoltageDC_init_def Resistor_on_set_attribute_def
        Let_def split: option.splits)

text \<open>
  Claim C6 does not hold of the code, which tests the pin against \<^verbatim>\<open>_state['pins']\<close> and
  not against \<^verbatim>\<open>input_basis_table\<close>. On a new \<^verbatim>\<open>VoltageDC\<close> the pin \<open>neg\<close> is not in
  \<^verbatim>\<open>input_basis_table\<close>, yet \<^verbatim>\<open>on_line_connect\<close> returns and registers the line on it; the
  pin \<open>neg:\<close> is in \<^verbatim>\<open>input_basis_table\<close>, yet \<^verbatim>\<open>on_line_connect\<close> raises \<^verbatim>\<open>KeyError\<close> and
  registers nothing.
\<close>

theorem VoltageDC_on_line_connect_ignores_basis_table:
  "''neg'' \<notin> dom (VoltageDC_input_basis_table VoltageDC_init)
   \<and> fst (VoltageDC_on_line_connect ''neg'' uid props VoltageDC_init) = Inr ()
   \<and> v_pins (snd (VoltageDC_on_line_connect ''neg'' uid props VoltageDC_init)) ''neg''
       = Some (v_basis VoltageDC_init, [str uid \<mapsto> props])
   \<and> ''neg:'' \<in> dom (VoltageDC_input_basis_table VoltageDC_init)
   \<and> VoltageDC_on_line_connect ''neg:'' uid props VoltageDC_init
       = (Inl (KeyError ''neg:''), VoltageDC_init)"
  by (simp add: VoltageDC_on_line_connect_def VoltageDC_init_def
      VoltageDC_input_basis_table_def Let_def)

text \<open>
  Claim C7 does not hold of the code. The keys of \<^verbatim>\<open>VoltageDC.input_basis_table\<close> are
  \<open>pos\<close> and \<open>neg:\<close> (with a colon), while the pins of a \<^verbatim>\<open>VoltageDC\<close> are \<open>pos\<close> and \<open>neg\<close>;
  \<^verbatim>\<open>Resistor.input_basis_table()\<close> builds a set of unhashable objects and raises
  \<^verbatim>\<open>TypeError\<close>, returning no mapping.
\<close>

theorem input_basis_table_malformed:
  "dom (VoltageDC_input_basis_table VoltageDC_init) = {''pos'', ''neg:''}
   \<and> dom (v_pins VoltageDC_init) = {''pos'', ''neg''}
   \<and> ''neg'' \<notin> dom (VoltageDC_input_basis_table VoltageDC_init)
   \<and> Resistor_input_basis_table Resistor_init
        = Inl (TypeError (UnhashableType ''PhysicalProperties''))
   \<and> dom (r_pins Resistor_init) = {''p1'', ''p2''}"
  by (auto simp: VoltageDC_input_basis_table_def Resistor_input_basis_table_def
      VoltageDC_init_def Resistor_init_def Let_def split: if_splits)

text \<open>
  Claim C8. For every component of either class, every pin \<open>P\<close>, line \<open>X\<close> and properties:
  connecting \<open>X\<close> to \<open>P\<close>, disconnecting it and connecting it again has the same outcome
  and leaves the component in the same state as connecting it once; and for a pin of
  the component (a key of \<^verbatim>\<open>_state['pins']\<close>) that outcome is a normal return. (The
  dictionaries are compared as Python compares them, by their entries.)
\<close>

theorem reconnect_same_state:
  "and_then (on_line_connect P X props)
     (and_then (on_line_disconnect P X) (on_line_connect P X props)) c
   = on_line_connect P X props c
   \<and> (P \<in> dom (pins c) \<longrightarrow> fst (on_line_connect P X props c) = Inr ())"
  by (cases c)
     (auto simp: and_then_def component_defs split: option.splits prod.splits)

theorem reconnect_same_state_witness:
  "''pos'' \<in> dom (pins (IsVoltageDC VoltageDC_init))
   \<and> and_then (on_line_connect ''pos'' demo_uuid default_line_properties)
       (and_then (on_line_disconnect ''pos'' demo_uuid)
          (on_line_connect ''pos'' demo_uuid default_line_properties))
       (IsVoltageDC VoltageDC_init)
     = on_line_connect ''pos'' demo_uuid default_line_properties (IsVoltageDC VoltageDC_init)
   \<and> fst (on_line_connect ''pos'' demo_uuid default_line_properties (IsVoltageDC VoltageDC_init))
     = Inr ()"
proof -
  have h: "''pos'' \<in> dom (pins (IsVoltageDC VoltageDC_init))"
    by (simp add: VoltageDC_init_def Let_def)
  from h reconnect_same_state [of "''pos''" demo_uuid default_line_properties
      "IsVoltageDC VoltageDC_init"]
  show ?thesis
    by blast
qed

text \<open>
  Claim C10. Whenever \<^verbatim>\<open>define\<close> raises, for a taken label or for an unrecognised item,
  the graph after the call is the graph before it: label table, component list and
  edge list.
\<close>

theorem define_failure_leaves_graph_unchanged:
  "fst (CircuitGraph_define label it g) = Inl e \<Longrightarrow>
     snd (CircuitGraph_define label it g) = g
     \<and> (e = KeyError ''CircuitGraph.define(): Cannot define component'' \<and> label \<in> dom (labels g)
        \<or> (\<exists>x. it = OtherObj x))"
  by (auto simp: CircuitGraph_define_def split: if_splits item.splits)

theorem define_failure_leaves_graph_unchanged_witness:
  "fst (CircuitGraph_define ''r'' (ComponentRef 4) demo_graph)
     = Inl (KeyError ''CircuitGraph.define(): Cannot define component'')
   \<and> snd (CircuitGraph_define ''r'' (ComponentRef 4) demo_graph) = demo_graph"
proof -
  have h: "fst (CircuitGraph_define ''r'' (ComponentRef 4) demo_graph)
     = Inl (KeyError ''CircuitGraph.define(): Cannot define component'')"
    by (simp add: CircuitGraph_define_def demo_graph_eq)
  from h define_failure_leaves_graph_unchanged [OF h]
  show ?thesis
    by blast
qed

end
